theory Spec2Isabelle
  imports Complex_Main
begin

section \<open>The tetrachoric correlation of PyReliMRI\<close>

text \<open>
  The module \<^verbatim>\<open>imgreliability/tetrachoric_correlation.py\<close> holds one function:
  \<^verbatim>\<open>
  def tetrachoric_corr(img1: ndarray, img2: ndarray) -> float:
      assert len(img1) > 0, ...
      assert len(img2) > 0, ...
      assert len(img1) == len(img2), ...
      A = sum(logical_and(img1 == 0, img2 == 0))
      B = sum(logical_and(img1 == 0, img2 == 1))
      C = sum(logical_and(img1 == 1, img2 == 0))
      D = sum(logical_and(img1 == 1, img2 == 1))
      AD = A*D
      return cos(pi/(1+sqrt(AD/B/C)))
  \<close>
  with \<^verbatim>\<open>cos\<close>, \<^verbatim>\<open>pi\<close>, \<^verbatim>\<open>sqrt\<close> and \<^verbatim>\<open>logical_and\<close> imported from numpy and
  \<^verbatim>\<open>sum\<close> the builtin of Python.
\<close>

subsection \<open>Values\<close>

text \<open>
  A one-dimensional integer array is a list of integers. The three assertions are the
  only places where the function raises; each is an \<^verbatim>\<open>AssertionError\<close>, told apart
  here by the assertion that failed. (Python is taken to run without \<^verbatim>\<open>-O\<close>, which
  would drop the assertions.)
\<close>

type_synonym ndarray = "int list"

datatype assertion = Image1_empty | Image2_empty | Length_mismatch

datatype error = AssertionError assertion

text \<open>
  A numpy \<^verbatim>\<open>float64\<close>: a finite number, one of the two infinities, or not-a-number.
  A finite value is held as the real number it stands for: the special values of
  IEEE 754 arithmetic (division by zero, infinities, not-a-number) are modelled as the
  standard prescribes, while the rounding of finite results to 53 bits is not modelled.
  There is one zero: every zero that \<^verbatim>\<open>tetrachoric_corr\<close> divides by is an integer count
  converted to \<^verbatim>\<open>float64\<close>, which is the positive zero.
\<close>

datatype float64 = Finite real | PInf | NInf | NaN

subsection \<open>The operations of numpy and Python that the function calls\<close>

text \<open>\<^verbatim>\<open>img == k\<close>: the elementwise comparison of an array with a scalar.\<close>

definition eq_scalar :: "ndarray \<Rightarrow> int \<Rightarrow> bool list" where
  "eq_scalar img k = map (\<lambda>x. x = k) img"

text \<open>
  \<^verbatim>\<open>logical_and(x, y)\<close>, elementwise. It is only called after the assertion that both
  arrays have the same length.
\<close>

definition logical_and :: "bool list \<Rightarrow> bool list \<Rightarrow> bool list" where
  "logical_and xs ys = map2 (\<and>) xs ys"

text \<open>
  Python's \<^verbatim>\<open>sum\<close> over an array of booleans: a left fold from \<^verbatim>\<open>0\<close> that adds
  \<^verbatim>\<open>True\<close> as 1 and \<^verbatim>\<open>False\<close> as 0. The running total is a numpy \<^verbatim>\<open>int64\<close> from
  the first element on. It is at most the length of the array, which Python bounds by
  \<open>2 ^ 63 - 1\<close>, so these additions never wrap.
\<close>

definition sum_py :: "bool list \<Rightarrow> int" where
  "sum_py bs = foldl (\<lambda>acc b. acc + (if b then 1 else 0)) 0 bs"

text \<open>
  The product of two \<^verbatim>\<open>int64\<close> scalars is an \<^verbatim>\<open>int64\<close>: numpy warns on overflow and
  returns the product wrapped to 64 bits, read as two's complement. (The default integer
  of numpy is 64 bits wide on Linux and macOS, and on every platform since numpy 2.)
\<close>

definition int64_mul :: "int \<Rightarrow> int \<Rightarrow> int" where
  "int64_mul a b = (a * b + 2 ^ 63) mod 2 ^ 64 - 2 ^ 63"

text \<open>An \<^verbatim>\<open>int64\<close> operand of a true division is converted to \<^verbatim>\<open>float64\<close>.\<close>

definition float_of_int64 :: "int \<Rightarrow> float64" where
  "float_of_int64 i = Finite (real_of_int i)"

text \<open>
  \<^verbatim>\<open>x / y\<close> on \<^verbatim>\<open>float64\<close>. Numpy warns and does not raise: a non-zero number divided
  by zero is an infinity of its sign, \<^verbatim>\<open>0 / 0\<close> and \<^verbatim>\<open>inf / inf\<close> are not-a-number.
\<close>

fun true_divide :: "float64 \<Rightarrow> float64 \<Rightarrow> float64" where
  "true_divide NaN y = NaN"
| "true_divide x NaN = NaN"
| "true_divide (Finite a) (Finite b) =
     (if b \<noteq> 0 then Finite (a / b)
      else if a = 0 then NaN
      else if 0 < a then PInf else NInf)"
| "true_divide (Finite a) PInf = Finite 0"
| "true_divide (Finite a) NInf = Finite 0"
| "true_divide PInf (Finite b) = (if 0 \<le> b then PInf else NInf)"
| "true_divide NInf (Finite b) = (if 0 \<le> b then NInf else PInf)"
| "true_divide PInf PInf = NaN"
| "true_divide PInf NInf = NaN"
| "true_divide NInf PInf = NaN"
| "true_divide NInf NInf = NaN"

text \<open>\<^verbatim>\<open>sqrt\<close> of numpy: not-a-number below zero.\<close>

fun sqrt_np :: "float64 \<Rightarrow> float64" where
  "sqrt_np (Finite a) = (if 0 \<le> a then Finite (sqrt a) else NaN)"
| "sqrt_np PInf = PInf"
| "sqrt_np NInf = NaN"
| "sqrt_np NaN = NaN"

text \<open>\<^verbatim>\<open>x + y\<close> on \<^verbatim>\<open>float64\<close>.\<close>

fun add_np :: "float64 \<Rightarrow> float64 \<Rightarrow> float64" where
  "add_np NaN y = NaN"
| "add_np x NaN = NaN"
| "add_np (Finite a) (Finite b) = Finite (a + b)"
| "add_np (Finite a) PInf = PInf"
| "add_np (Finite a) NInf = NInf"
| "add_np PInf (Finite b) = PInf"
| "add_np NInf (Finite b) = NInf"
| "add_np PInf PInf = PInf"
| "add_np NInf NInf = NInf"
| "add_np PInf NInf = NaN"
| "add_np NInf PInf = NaN"

text \<open>\<^verbatim>\<open>cos\<close> of numpy: not-a-number at an infinity.\<close>

fun cos_np :: "float64 \<Rightarrow> float64" where
  "cos_np (Finite a) = Finite (cos a)"
| "cos_np PInf = NaN"
| "cos_np NInf = NaN"
| "cos_np NaN = NaN"

definition pi_np :: float64 where
  "pi_np = Finite pi"

subsection \<open>The function\<close>

text \<open>The four contingency counts, as the four assignments compute them.\<close>

definition count_A :: "ndarray \<Rightarrow> ndarray \<Rightarrow> int" where
  "count_A img1 img2 = sum_py (logical_and (eq_scalar img1 0) (eq_scalar img2 0))"

definition count_B :: "ndarray \<Rightarrow> ndarray \<Rightarrow> int" where
  "count_B img1 img2 = sum_py (logical_and (eq_scalar img1 0) (eq_scalar img2 1))"

definition count_C :: "ndarray \<Rightarrow> ndarray \<Rightarrow> int" where
  "count_C img1 img2 = sum_py (logical_and (eq_scalar img1 1) (eq_scalar img2 0))"

definition count_D :: "ndarray \<Rightarrow> ndarray \<Rightarrow> int" where
  "count_D img1 img2 = sum_py (logical_and (eq_scalar img1 1) (eq_scalar img2 1))"

text \<open>The returned expression \<^verbatim>\<open>cos(pi/(1+sqrt(AD/B/C)))\<close>, on the \<^verbatim>\<open>int64\<close> values.\<close>

definition corr_of_counts :: "int \<Rightarrow> int \<Rightarrow> int \<Rightarrow> float64" where
  "corr_of_counts AD B C =
     cos_np (true_divide pi_np
       (add_np (Finite 1)
         (sqrt_np (true_divide (true_divide (float_of_int64 AD) (float_of_int64 B))
                    (float_of_int64 C)))))"

definition tetrachoric_corr :: "ndarray \<Rightarrow> ndarray \<Rightarrow> error + float64" where
  "tetrachoric_corr img1 img2 =
     (if \<not> length img1 > 0 then Inl (AssertionError Image1_empty)
      else if \<not> length img2 > 0 then Inl (AssertionError Image2_empty)
      else if \<not> length img1 = length img2 then Inl (AssertionError Length_mismatch)
      else
        let A = count_A img1 img2;
            B = count_B img1 img2;
            C = count_C img1 img2;
            D = count_D img1 img2;
            AD = int64_mul A D
        in Inr (corr_of_counts AD B C))"

text \<open>A binary vector: every entry is 0 or 1.\<close>

definition binary :: "ndarray \<Rightarrow> bool" where
  "binary img = list_all (\<lambda>x. x = 0 \<or> x = 1) img"

subsection \<open>Vectors used to state the claims\<close>

text \<open>
  \<open>complement img1 img2\<close>: the vectors have one length and \<open>img2[i] = 1 - img1[i]\<close> at
  every position.
\<close>

definition complement :: "ndarray \<Rightarrow> ndarray \<Rightarrow> bool" where
  "complement img1 img2 = list_all2 (\<lambda>x y. y = 1 - x) img1 img2"

text \<open>
  \<open>blocks n m t\<close>: the binary vector of \<open>n\<close> zeros, then \<open>m\<close> ones, then the entries
  of \<open>t\<close>.
\<close>

definition blocks :: "nat \<Rightarrow> nat \<Rightarrow> ndarray \<Rightarrow> ndarray" where
  "blocks n m t = replicate n 0 @ replicate m 1 @ t"

section \<open>Properties\<close>

subsection \<open>The counts\<close>

text \<open>Python's fold counts the \<^verbatim>\<open>True\<close> entries.\<close>

lemma foldl_count:
  "foldl (\<lambda>acc b. acc + (if b then 1 else 0)) (a::int) bs = a + int (length (filter id bs))"
  by (induction bs arbitrary: a) auto

lemma sum_py_filter: "sum_py bs = int (length (filter id bs))"
  by (simp add: sum_py_def foldl_count)

text \<open>
  Each count is the number of positions holding one pair of values.
\<close>

lemma sum_py_pairs:
  "sum_py (logical_and (eq_scalar img1 a) (eq_scalar img2 b)) =
     int (length (filter (\<lambda>(x, y). x = a \<and> y = b) (zip img1 img2)))"
  by (simp add: sum_py_filter logical_and_def eq_scalar_def zip_map_map filter_map o_def
        case_prod_unfold)

lemmas count_defs = count_A_def count_B_def count_C_def count_D_def

lemma count_nonneg:
  "0 \<le> count_A v1 v2" "0 \<le> count_B v1 v2" "0 \<le> count_C v1 v2" "0 \<le> count_D v1 v2"
  by (simp_all add: count_defs sum_py_pairs)

lemma count_total:
  "length v1 = length v2 \<Longrightarrow> binary v1 \<Longrightarrow> binary v2 \<Longrightarrow>
   count_A v1 v2 + count_B v1 v2 + count_C v1 v2 + count_D v1 v2 = int (length v1)"
  unfolding count_defs sum_py_pairs binary_def
  by (induction v1 v2 rule: list_induct2) auto

lemma count_swap:
  "count_A v2 v1 = count_A v1 v2" "count_D v2 v1 = count_D v1 v2"
  "count_B v2 v1 = count_C v1 v2" "count_C v2 v1 = count_B v1 v2"
  unfolding count_defs sum_py_pairs
  by (subst zip_commute, simp add: filter_map o_def case_prod_unfold conj_commute)+

subsection \<open>The returned expression, by the sign of its operands\<close>

text \<open>A product inside the range of \<^verbatim>\<open>int64\<close> is not wrapped.\<close>

lemma int64_mul_exact: "0 \<le> a * b \<Longrightarrow> a * b < 2 ^ 63 \<Longrightarrow> int64_mul a b = a * b"
  by (simp add: int64_mul_def)

text \<open>
  With both divisors positive and a non-negative numerator every intermediate value
  is finite.
\<close>

lemma corr_regular:
  assumes "0 \<le> AD" "0 < B" "0 < C"
  shows "corr_of_counts AD B C =
         Finite (cos (pi / (1 + sqrt (real_of_int AD / real_of_int (B * C)))))"
proof -
  have "0 \<le> real_of_int AD / real_of_int B / real_of_int C"
    using assms by simp
  moreover have "1 + sqrt (real_of_int AD / real_of_int B / real_of_int C) \<noteq> 0"
    using real_sqrt_ge_zero [OF calculation] by linarith
  ultimately show ?thesis
    using assms by (simp add: corr_of_counts_def float_of_int64_def pi_np_def)
qed

text \<open>
  A negative numerator (only a wrapped product is one) ends in the square root of a
  negative number or of minus infinity.
\<close>

lemma corr_negative:
  assumes "AD < 0" "0 \<le> B" "0 \<le> C"
  shows "corr_of_counts AD B C = NaN"
proof -
  have q: "0 < B \<Longrightarrow> real_of_int AD / real_of_int B < 0"
    using assms(1) by (simp add: divide_neg_pos)
  have r: "0 < B \<Longrightarrow> 0 < C \<Longrightarrow> real_of_int AD / real_of_int B / real_of_int C < 0"
  proof -
    assume b: "0 < B" and c: "0 < C"
    show ?thesis
      by (rule divide_neg_pos [OF q [OF b]]) (use c in simp)
  qed
  show ?thesis
    using assms q r
    by (cases "B = 0"; cases "C = 0")
       (auto simp add: corr_of_counts_def float_of_int64_def pi_np_def not_le not_less)
qed

text \<open>
  A positive numerator over a zero divisor is plus infinity; then
  \<^verbatim>\<open>sqrt(inf) = inf\<close>, \<^verbatim>\<open>1 + inf = inf\<close>, \<^verbatim>\<open>pi / inf = 0\<close> and \<^verbatim>\<open>cos(0) = 1\<close>.
\<close>

lemma corr_infinite:
  assumes "0 < AD" "0 \<le> B" "0 \<le> C" "B = 0 \<or> C = 0"
  shows "corr_of_counts AD B C = Finite 1"
  using assms
  by (cases "B = 0"; cases "C = 0")
     (simp_all add: corr_of_counts_def float_of_int64_def pi_np_def)

text \<open>A zero numerator over a zero divisor is not-a-number, and stays so.\<close>

lemma corr_indeterminate:
  assumes "0 \<le> B" "B = 0 \<or> C = 0"
  shows "corr_of_counts 0 B C = NaN"
  using assms
  by (cases "B = 0"; cases "C = 0")
     (simp_all add: corr_of_counts_def float_of_int64_def pi_np_def)

text \<open>In this arithmetic the two divisions commute.\<close>

lemma corr_swap:
  assumes "0 \<le> B" "0 \<le> C"
  shows "corr_of_counts AD B C = corr_of_counts AD C B"
proof -
  consider "AD < 0" | "AD = 0" "B = 0 \<or> C = 0" | "0 < AD" "B = 0 \<or> C = 0"
    | "0 \<le> AD" "0 < B" "0 < C"
    using assms by linarith
  then show ?thesis
  proof cases
    case 1
    then show ?thesis using assms by (simp add: corr_negative)
  next
    case 2
    then show ?thesis using assms by (auto simp add: corr_indeterminate)
  next
    case 3
    then show ?thesis using assms by (auto simp add: corr_infinite)
  next
    case 4
    then show ?thesis by (simp add: corr_regular mult.commute)
  qed
qed

subsection \<open>The function on inputs that pass the assertions\<close>

lemma tetrachoric_corr_valid:
  assumes "img1 \<noteq> []" "length img1 = length img2"
  shows "tetrachoric_corr img1 img2 =
         Inr (corr_of_counts (int64_mul (count_A img1 img2) (count_D img1 img2))
               (count_B img1 img2) (count_C img1 img2))"
  using assms by (auto simp add: tetrachoric_corr_def Let_def)

lemma count_Nil [simp]:
  "count_A [] v = 0" "count_B [] v = 0" "count_C [] v = 0" "count_D [] v = 0"
  by (simp_all add: count_defs sum_py_pairs)

lemma product_nonneg: "0 \<le> count_A v1 v2 * count_D v1 v2"
  by (simp add: count_nonneg)

lemma product_exact:
  "count_A v1 v2 * count_D v1 v2 < 2 ^ 63 \<Longrightarrow>
   int64_mul (count_A v1 v2) (count_D v1 v2) = count_A v1 v2 * count_D v1 v2"
  by (rule int64_mul_exact [OF product_nonneg])

text \<open>
  Two vectors shorter than \<open>2 ^ 32\<close> are inside that range: \<open>A + D\<close> is at most their
  length.
\<close>

lemma count_diagonal_le:
  "length img1 = length img2 \<Longrightarrow> count_A img1 img2 + count_D img1 img2 \<le> int (length img1)"
  unfolding count_defs sum_py_pairs
  by (induction img1 img2 rule: list_induct2) auto

lemma product_small:
  assumes "length img1 = length img2" and "length img1 < 2 ^ 32"
  shows "count_A img1 img2 * count_D img1 img2 < 2 ^ 63"
proof -
  let ?A = "count_A img1 img2" and ?D = "count_D img1 img2"
  have A: "0 \<le> ?A" and D: "0 \<le> ?D" by (simp_all add: count_nonneg)
  have "int (length img1) < int (2 ^ 32)"
    using assms(2) by (simp only: of_nat_less_iff)
  then have n: "int (length img1) < 2 ^ 32" by simp
  have s: "?A + ?D < 4294967296"
    using count_diagonal_le [OF assms(1)] n by simp
  have a: "?A < 2 ^ 32" and d: "?D < 2 ^ 31 \<or> ?A < 2 ^ 31"
    using s A D by auto
  from d show ?thesis
  proof
    assume "?D < 2 ^ 31"
    then have "?A * ?D \<le> 2 ^ 32 * (2 ^ 31 - 1)"
      using a A D by (intro mult_mono) simp_all
    then show ?thesis by simp
  next
    assume a': "?A < 2 ^ 31"
    have d': "?D < 2 ^ 32"
      using s A D by auto
    have "?A * ?D \<le> (2 ^ 31 - 1) * 2 ^ 32"
      using a' d' A D by (intro mult_mono) simp_all
    then show ?thesis by simp
  qed
qed

text \<open>A zero numerator over positive divisors: \<open>cos (\<pi> / (1 + sqrt 0)) = -1\<close>.\<close>

lemma corr_zero_ratio: "0 < B \<Longrightarrow> 0 < C \<Longrightarrow> corr_of_counts 0 B C = Finite (- 1)"
  by (simp add: corr_regular)

subsection \<open>Counts of vectors given in blocks\<close>

lemma length_blocks [simp]: "length (blocks n m t) = n + m + length t"
  by (simp add: blocks_def)

lemma binary_blocks [simp]: "binary (blocks n m t) = binary t"
  by (auto simp add: blocks_def binary_def list_all_iff)

lemma pairs_blocks:
  "length t1 = length t2 \<Longrightarrow>
   int (length (filter P (zip (blocks n m t1) (blocks n m t2)))) =
     (if P (0, 0) then int n else 0) + (if P (1, 1) then int m else 0) +
     int (length (filter P (zip t1 t2)))"
  by (simp add: blocks_def)

lemma count_blocks:
  assumes "length t1 = length t2"
  shows "count_A (blocks n m t1) (blocks n m t2) = int n + count_A t1 t2"
    and "count_B (blocks n m t1) (blocks n m t2) = count_B t1 t2"
    and "count_C (blocks n m t1) (blocks n m t2) = count_C t1 t2"
    and "count_D (blocks n m t1) (blocks n m t2) = int m + count_D t1 t2"
  unfolding count_defs sum_py_pairs by (simp_all add: pairs_blocks [OF assms])

lemma blocks_valid:
  assumes "length t1 = length t2" "0 < n"
  shows "tetrachoric_corr (blocks n m t1) (blocks n m t2) =
         Inr (corr_of_counts (int64_mul (int n + count_A t1 t2) (int m + count_D t1 t2))
               (count_B t1 t2) (count_C t1 t2))"
proof -
  have "blocks n m t1 \<noteq> []" using assms(2) by (auto simp add: blocks_def)
  then show ?thesis
    using assms(1) by (simp add: tetrachoric_corr_valid count_blocks)
qed

lemma count_small:
  "count_A [0, 1] [1, 0] = 0" "count_B [0, 1] [1, 0] = 1"
  "count_C [0, 1] [1, 0] = 1" "count_D [0, 1] [1, 0] = 0"
  "count_A [] [] = 0" "count_B [] [] = 0" "count_C [] [] = 0" "count_D [] [] = 0"
  by (simp_all add: count_defs sum_py_pairs)

lemma binary_small: "binary [0, 1]" "binary [1, 0]" "binary []"
  by (simp_all add: binary_def)

subsection \<open>Counts of complementary vectors\<close>

lemma complement_counts:
  "list_all2 (\<lambda>x y. y = 1 - x) img1 img2 \<Longrightarrow>
   count_A img1 img2 = 0 \<and> count_D img1 img2 = 0 \<and>
   count_B img1 img2 = int (count_list img1 0) \<and>
   count_C img1 img2 = int (count_list img1 1)"
  unfolding count_defs sum_py_pairs
  by (induction img1 img2 rule: list_all2_induct) auto

subsection \<open>Exchanging the arguments, in arithmetic without rounding\<close>

text \<open>
  Exchanging the arguments keeps \<open>A\<close> and \<open>D\<close> and exchanges \<open>B\<close> with \<open>C\<close>, so the
  function divides by \<open>C\<close> first and by \<open>B\<close> second. On real numbers and on the special
  values the two orders give the same result. This says nothing about the last bits of
  two \<^verbatim>\<open>float64\<close> results: \<^verbatim>\<open>(AD/B)/C\<close> and \<^verbatim>\<open>(AD/C)/B\<close> are each rounded twice and can
  differ, which the finite values of this model, being real numbers, do not show.
\<close>

lemma tetrachoric_corr_exact_commute:
  assumes "length img1 = length img2"
  shows "tetrachoric_corr img1 img2 = tetrachoric_corr img2 img1"
proof (cases "img1 = []")
  case True
  then show ?thesis using assms by (simp add: tetrachoric_corr_def)
next
  case False
  then have ne2: "img2 \<noteq> []" using assms by auto
  have "tetrachoric_corr img2 img1 =
        Inr (corr_of_counts (int64_mul (count_A img2 img1) (count_D img2 img1))
              (count_B img2 img1) (count_C img2 img1))"
    by (rule tetrachoric_corr_valid [OF ne2 assms [symmetric]])
  also have "\<dots> = Inr (corr_of_counts (int64_mul (count_A img1 img2) (count_D img1 img2))
              (count_C img1 img2) (count_B img1 img2))"
    by (simp only: count_swap [of img1 img2])
  also have "\<dots> = Inr (corr_of_counts (int64_mul (count_A img1 img2) (count_D img1 img2))
              (count_B img1 img2) (count_C img1 img2))"
    by (simp only: corr_swap [OF count_nonneg(3) count_nonneg(2)])
  also have "\<dots> = tetrachoric_corr img1 img2"
    by (rule tetrachoric_corr_valid [OF False assms, symmetric])
  finally show ?thesis by simp
qed

section \<open>The claims\<close>

subsection \<open>The contingency counts\<close>

text \<open>
  Claim C8. For two binary vectors of the same length \<open>n\<close> the four counts that
  \<^verbatim>\<open>tetrachoric_corr\<close> computes are non-negative and add up to \<open>n\<close>.
\<close>

theorem counts_partition:
  assumes "length img1 = length img2" "binary img1" "binary img2"
  shows "0 \<le> count_A img1 img2 \<and> 0 \<le> count_B img1 img2 \<and>
         0 \<le> count_C img1 img2 \<and> 0 \<le> count_D img1 img2 \<and>
         count_A img1 img2 + count_B img1 img2 + count_C img1 img2 + count_D img1 img2 =
           int (length img1)"
  using count_total [OF assms] by (simp add: count_nonneg)

theorem counts_partition_witness:
  "count_A [0, 0, 1, 1] [0, 1, 0, 1] + count_B [0, 0, 1, 1] [0, 1, 0, 1] +
   count_C [0, 0, 1, 1] [0, 1, 0, 1] + count_D [0, 0, 1, 1] [0, 1, 0, 1] = 4"
  using counts_partition [of "[0, 0, 1, 1]" "[0, 1, 0, 1]"] by (simp add: binary_def)

subsection \<open>When the function raises\<close>

text \<open>
  Claim C3. \<^verbatim>\<open>tetrachoric_corr\<close> raises exactly when one of the vectors is empty or the
  two lengths differ, and what it raises is the \<^verbatim>\<open>AssertionError\<close> of one of its three
  assertions (the precondition error that the specification calls \<^verbatim>\<open>InvalidInputError\<close>);
  on every other input, whatever the entries and also where a division by zero happens,
  it returns a \<^verbatim>\<open>float64\<close>.
\<close>

theorem tetrachoric_corr_raises:
  "((\<exists>e. tetrachoric_corr img1 img2 = Inl (AssertionError e)) \<longleftrightarrow>
      (length img1 = 0 \<or> length img2 = 0 \<or> length img1 \<noteq> length img2)) \<and>
   ((\<exists>r. tetrachoric_corr img1 img2 = Inr r) \<longleftrightarrow>
      (0 < length img1 \<and> length img1 = length img2))"
  by (auto simp add: tetrachoric_corr_def Let_def)

theorem tetrachoric_corr_raises_witness:
  "(\<exists>e. tetrachoric_corr [0, 1, 0] [0, 1, 0, 1] = Inl (AssertionError e)) \<and>
   (\<exists>e. tetrachoric_corr [] [] = Inl (AssertionError e)) \<and>
   (\<exists>r. tetrachoric_corr [0, 0, 1, 1] [1, 1, 1, 1] = Inr r)"
  using tetrachoric_corr_raises [of "[0, 1, 0]" "[0, 1, 0, 1]"]
        tetrachoric_corr_raises [of "[]" "[]"]
        tetrachoric_corr_raises [of "[0, 0, 1, 1]" "[1, 1, 1, 1]"]
  by simp

subsection \<open>A zero cell on the diagonal\<close>

text \<open>
  Claim C6. With \<open>A = 0\<close> or \<open>D = 0\<close> and both \<open>B\<close> and \<open>C\<close> positive, the ratio is 0
  and the result is \<open>cos \<pi> = -1\<close>: a finite value, not not-a-number.
\<close>

theorem zero_cell_gives_minus_one:
  assumes "length img1 = length img2"
    and "count_A img1 img2 = 0 \<or> count_D img1 img2 = 0"
    and "0 < count_B img1 img2" and "0 < count_C img1 img2"
  shows "tetrachoric_corr img1 img2 = Inr (Finite (- 1))"
proof -
  have ne: "img1 \<noteq> []" using assms(3) by auto
  have p0: "count_A img1 img2 * count_D img1 img2 = 0" using assms(2) by auto
  have "int64_mul (count_A img1 img2) (count_D img1 img2) = 0"
    unfolding int64_mul_def p0 by simp
  then show ?thesis
    using assms(3,4) by (simp add: tetrachoric_corr_valid [OF ne assms(1)] corr_regular)
qed

theorem zero_cell_gives_minus_one_witness:
  "tetrachoric_corr [0, 1, 1] [1, 0, 1] = Inr (Finite (- 1)) \<and>
   tetrachoric_corr [0, 1, 1] [1, 0, 1] \<noteq> Inr NaN"
  using zero_cell_gives_minus_one [of "[0, 1, 1]" "[1, 0, 1]"]
  by (simp add: count_defs sum_py_pairs)

subsection \<open>The range of the result\<close>

text \<open>
  With \<open>B > 0\<close> and \<open>C > 0\<close> and a product \<open>A * D\<close> below \<open>2 ^ 63\<close> the result is a
  finite number between \<open>-1\<close> and \<open>1\<close>.
\<close>

lemma range_within_int64:
  assumes "length img1 = length img2"
    and "0 < count_B img1 img2" and "0 < count_C img1 img2"
    and "count_A img1 img2 * count_D img1 img2 < 2 ^ 63"
  shows "\<exists>r. tetrachoric_corr img1 img2 = Inr (Finite r) \<and> - 1 \<le> r \<and> r \<le> 1"
proof -
  have ne: "img1 \<noteq> []" using assms(2) by auto
  show ?thesis
    using assms(2,3) product_nonneg [of img1 img2]
    by (simp add: tetrachoric_corr_valid [OF ne assms(1)] product_exact [OF assms(4)]
          corr_regular)
qed

text \<open>
  Claim C5 says that the result lies in \<open>[-1, 1]\<close> for every pair of vectors with \<open>B > 0\<close>
  and \<open>C > 0\<close>, and the repository's property test asserts the same. The function
  multiplies \<open>A\<close> and \<open>D\<close> as \<^verbatim>\<open>int64\<close> without a guard. Take \<open>2 ^ 32\<close> positions
  \<open>(0, 0)\<close>, \<open>2 ^ 31\<close> positions \<open>(1, 1)\<close>, one \<open>(0, 1)\<close> and one \<open>(1, 0)\<close>:
  \<open>A * D = 2 ^ 63\<close> wraps to \<open>- 2 ^ 63\<close>, the ratio is negative, its square root is
  not-a-number and so is the result, although \<open>B = C = 1\<close>.
\<close>

theorem range_wrapped_product_nan:
  "length (blocks (2 ^ 32) (2 ^ 31) [0, 1]) = length (blocks (2 ^ 32) (2 ^ 31) [1, 0]) \<and>
   binary (blocks (2 ^ 32) (2 ^ 31) [0, 1]) \<and> binary (blocks (2 ^ 32) (2 ^ 31) [1, 0]) \<and>
   0 < count_B (blocks (2 ^ 32) (2 ^ 31) [0, 1]) (blocks (2 ^ 32) (2 ^ 31) [1, 0]) \<and>
   0 < count_C (blocks (2 ^ 32) (2 ^ 31) [0, 1]) (blocks (2 ^ 32) (2 ^ 31) [1, 0]) \<and>
   tetrachoric_corr (blocks (2 ^ 32) (2 ^ 31) [0, 1]) (blocks (2 ^ 32) (2 ^ 31) [1, 0]) = Inr NaN"
proof -
  have "int64_mul (2 ^ 32) (2 ^ 31) = - (2 ^ 63)"
    by (simp add: int64_mul_def)
  then show ?thesis
    by (simp add: blocks_valid count_blocks count_small corr_negative binary_small)
qed

subsection \<open>The formula, in arithmetic without rounding\<close>

text \<open>
  With \<open>B > 0\<close> and \<open>C > 0\<close> and a product \<open>A * D\<close> below \<open>2 ^ 63\<close>, the real number that
  the returned expression denotes is \<open>cos (\<pi> / (1 + sqrt ((A * D) / (B * C))))\<close>: on
  real numbers, dividing by \<open>B\<close> and then by \<open>C\<close> is dividing by \<open>B * C\<close>. This is a
  statement about the expression, not about the \<^verbatim>\<open>float64\<close> that numpy computes for
  it, whose two divisions are each rounded.
\<close>

lemma formula_without_rounding:
  assumes "length img1 = length img2"
    and "0 < count_B img1 img2" and "0 < count_C img1 img2"
    and "count_A img1 img2 * count_D img1 img2 < 2 ^ 63"
  shows "tetrachoric_corr img1 img2 =
         Inr (Finite (cos (pi / (1 + sqrt (real_of_int (count_A img1 img2 * count_D img1 img2) /
                                         real_of_int (count_B img1 img2 * count_C img1 img2))))))"
proof -
  have ne: "img1 \<noteq> []" using assms(2) by auto
  show ?thesis
    using assms(2,3) product_nonneg [of img1 img2]
    by (simp add: tetrachoric_corr_valid [OF ne assms(1)] product_exact [OF assms(4)]
          corr_regular)
qed

subsection \<open>When the result is not-a-number\<close>

text \<open>
  For two non-empty vectors of the same length whose product \<open>A * D\<close> is below \<open>2 ^ 63\<close>,
  the result is not-a-number if and only if \<open>A * D = 0\<close> and (\<open>B = 0\<close> or \<open>C = 0\<close>); and
  with \<open>B = 0\<close> or \<open>C = 0\<close> but \<open>A > 0\<close> and \<open>D > 0\<close>, the ratio is plus infinity and the
  result is \<open>1.0\<close>.
\<close>

lemma nan_iff_within_int64:
  assumes "img1 \<noteq> []" and "length img1 = length img2"
    and "count_A img1 img2 * count_D img1 img2 < 2 ^ 63"
  shows "(tetrachoric_corr img1 img2 = Inr NaN \<longleftrightarrow>
            count_A img1 img2 * count_D img1 img2 = 0 \<and>
            (count_B img1 img2 = 0 \<or> count_C img1 img2 = 0)) \<and>
         ((count_B img1 img2 = 0 \<or> count_C img1 img2 = 0) \<and>
            0 < count_A img1 img2 \<and> 0 < count_D img1 img2 \<longrightarrow>
          tetrachoric_corr img1 img2 = Inr (Finite 1))"
proof -
  let ?A = "count_A img1 img2" and ?B = "count_B img1 img2"
  let ?C = "count_C img1 img2" and ?D = "count_D img1 img2"
  have B: "0 \<le> ?B" and C: "0 \<le> ?C" and AD: "0 \<le> ?A * ?D"
    by (simp_all add: count_nonneg)
  have eq: "tetrachoric_corr img1 img2 = Inr (corr_of_counts (?A * ?D) ?B ?C)"
    by (simp add: tetrachoric_corr_valid [OF assms(1,2)] product_exact [OF assms(3)])
  consider "?A * ?D = 0" "?B = 0 \<or> ?C = 0" | "0 < ?A * ?D" "?B = 0 \<or> ?C = 0"
    | "0 < ?B" "0 < ?C"
    using B C AD by linarith
  then show ?thesis
  proof cases
    case 1
    then show ?thesis using B by (auto simp add: eq corr_indeterminate)
  next
    case 2
    then show ?thesis using B C by (auto simp add: eq corr_infinite)
  next
    case 3
    then show ?thesis using AD by (auto simp add: eq corr_regular)
  qed
qed

text \<open>
  Claim C9 says so for every pair of vectors: not-a-number only if \<open>A * D = 0\<close>, and
  \<open>1.0\<close> whenever \<open>B = 0\<close> or \<open>C = 0\<close> with \<open>A > 0\<close> and \<open>D > 0\<close>. The unguarded \<^verbatim>\<open>int64\<close>
  product breaks it: for the vector of \<open>2 ^ 32\<close> zeros and \<open>2 ^ 32\<close> ones, paired with
  itself, \<open>A * D = 2 ^ 64\<close> wraps to \<open>0\<close> and \<open>B = 0\<close>, so the function computes
  \<^verbatim>\<open>0 / 0\<close> and returns not-a-number, although \<open>A * D \<noteq> 0\<close>, \<open>A > 0\<close> and \<open>D > 0\<close>.
\<close>

theorem identical_wrapped_product_nan:
  "blocks (2 ^ 32) (2 ^ 32) [] \<noteq> [] \<and> binary (blocks (2 ^ 32) (2 ^ 32) []) \<and>
   count_B (blocks (2 ^ 32) (2 ^ 32) []) (blocks (2 ^ 32) (2 ^ 32) []) = 0 \<and>
   0 < count_A (blocks (2 ^ 32) (2 ^ 32) []) (blocks (2 ^ 32) (2 ^ 32) []) \<and>
   0 < count_D (blocks (2 ^ 32) (2 ^ 32) []) (blocks (2 ^ 32) (2 ^ 32) []) \<and>
   count_A (blocks (2 ^ 32) (2 ^ 32) []) (blocks (2 ^ 32) (2 ^ 32) []) *
     count_D (blocks (2 ^ 32) (2 ^ 32) []) (blocks (2 ^ 32) (2 ^ 32) []) \<noteq> 0 \<and>
   tetrachoric_corr (blocks (2 ^ 32) (2 ^ 32) []) (blocks (2 ^ 32) (2 ^ 32) []) = Inr NaN"
proof -
  have "int64_mul (2 ^ 32) (2 ^ 32) = 0"
    by (simp add: int64_mul_def)
  moreover have "blocks (2 ^ 32) (2 ^ 32) [] \<noteq> []"
    by (simp add: blocks_def)
  ultimately show ?thesis
    by (simp add: blocks_valid count_blocks count_small corr_indeterminate binary_small)
qed

subsection \<open>Complementary vectors\<close>

text \<open>
  Claim C4, amended. If \<open>img2\<close> is the elementwise complement of \<open>img1\<close> and \<open>img1\<close>
  holds at least one 0 and at least one 1, then \<^verbatim>\<open>tetrachoric_corr\<close> returns \<open>-1.0\<close>.
\<close>

theorem complement_gives_minus_one:
  assumes "complement img1 img2" and "0 \<in> set img1" and "1 \<in> set img1"
  shows "tetrachoric_corr img1 img2 = Inr (Finite (- 1))"
proof -
  have c: "list_all2 (\<lambda>x y. y = 1 - x) img1 img2"
    using assms(1) by (simp add: complement_def)
  have len: "length img1 = length img2"
    using c by (rule list_all2_lengthD)
  have ne: "img1 \<noteq> []" using assms(2) by auto
  have "count_list img1 0 \<noteq> 0" and "count_list img1 1 \<noteq> 0"
    using assms(2,3) by (simp_all add: count_list_0_iff)
  then have B: "0 < count_B img1 img2" and C: "0 < count_C img1 img2"
    by (simp_all add: complement_counts [OF c])
  show ?thesis
    using B C
    by (simp add: tetrachoric_corr_valid [OF ne len] complement_counts [OF c] int64_mul_def
          corr_zero_ratio)
qed

theorem complement_gives_minus_one_witness:
  "tetrachoric_corr [0, 0, 1, 1] [1, 1, 0, 0] = Inr (Finite (- 1))"
  using complement_gives_minus_one [of "[0, 0, 1, 1]" "[1, 1, 0, 0]"]
  by (simp add: complement_def)

text \<open>
  A constant vector and its complement have \<open>A = D = 0\<close> and \<open>C = 0\<close> (or \<open>B = 0\<close>): the
  function computes \<^verbatim>\<open>0 / B / 0\<close> and returns not-a-number, not \<open>-1.0\<close>.
\<close>

theorem complement_constant_counterexample:
  "binary [0, 0] \<and> binary [1, 1] \<and> complement [0, 0] [1, 1] \<and>
   tetrachoric_corr [0, 0] [1, 1] = Inr NaN"
  by (simp add: binary_def complement_def tetrachoric_corr_valid count_defs sum_py_pairs
        int64_mul_def corr_indeterminate)

subsection \<open>Identical vectors\<close>

text \<open>
  Claim C1 says that identical vectors give \<open>1.0\<close>, the all-zeros and the all-ones
  vector included. For the all-zeros vector of length 24 (the length the repository's
  property test draws) \<open>A = 24\<close> and \<open>B = C = D = 0\<close>; for the all-ones vector \<open>D = 24\<close>
  and \<open>A = B = C = 0\<close>. Either way the function computes \<^verbatim>\<open>0 / 0\<close> and returns
  not-a-number.
\<close>

theorem identical_constant_nan:
  "tetrachoric_corr (replicate 24 0) (replicate 24 0) = Inr NaN \<and>
   tetrachoric_corr (replicate 24 1) (replicate 24 1) = Inr NaN"
proof -
  have z: "replicate 24 (0::int) = blocks 24 0 []" and o: "replicate 24 (1::int) = blocks 0 24 []"
    by (simp_all add: blocks_def)
  have ne: "blocks 0 24 [] \<noteq> []" by (simp add: blocks_def)
  have "tetrachoric_corr (blocks 24 0 []) (blocks 24 0 []) = Inr NaN"
    by (simp add: blocks_valid count_small int64_mul_def corr_indeterminate)
  moreover have "tetrachoric_corr (blocks 0 24 []) (blocks 0 24 []) = Inr NaN"
    by (simp add: tetrachoric_corr_valid [OF ne] count_blocks count_small int64_mul_def
          corr_indeterminate)
  ultimately show ?thesis
    by (simp only: z o)
qed

subsection \<open>Discordance in one direction only\<close>

text \<open>
  Claim C2 says that \<open>B = 0\<close> or \<open>C = 0\<close> gives not-a-number for vectors that are neither
  identical nor complementary. For \<^verbatim>\<open>[0, 1, 1]\<close> and \<^verbatim>\<open>[0, 0, 1]\<close>, \<open>A = 1\<close>, \<open>B = 0\<close>,
  \<open>C = 1\<close> and \<open>D = 1\<close>: the function computes \<^verbatim>\<open>1 / 0 = inf\<close> and returns \<open>1.0\<close>.
\<close>

theorem one_sided_discordance_gives_one:
  "tetrachoric_corr [0, 1, 1] [0, 0, 1] = Inr (Finite 1)"
  by (simp add: tetrachoric_corr_valid count_defs sum_py_pairs int64_mul_def corr_infinite)

end
